theory Spec2Isabelle
  imports Complex_Main
begin

section \<open>Language descriptors of coalib.bearlib.languages.Language\<close>

subsection \<open>Numbers\<close>

text \<open>
  A version or a limit is a Python number: an \<open>int\<close> or a \<open>float\<close>. The code only
  compares numbers, truncates them with \<open>int(...)\<close> and sorts them; all of these are exact
  on finite floats, so a finite float is represented by the rational number it denotes.
  Non-finite floats (\<open>nan\<close>, \<open>inf\<close>) are outside the model.
\<close>

datatype number = PInt int | PFloat rat

fun num_val :: "number \<Rightarrow> rat" where
  "num_val (PInt i) = of_int i"
| "num_val (PFloat r) = r"

text \<open>\<open>int(version)\<close>: the identity on an int, truncation towards zero on a float.\<close>

fun py_int :: "number \<Rightarrow> int" where
  "py_int (PInt i) = i"
| "py_int (PFloat r) = (if 0 \<le> r then \<lfloor>r\<rfloor> else \<lceil>r\<rceil>)"

text \<open>The six functions of the \<open>operator\<close> module that the comparison methods pass on.\<close>

datatype relop = Gt | Lt | Ge | Le | Eq | Ne

fun operator :: "relop \<Rightarrow> rat \<Rightarrow> rat \<Rightarrow> bool" where
  "operator Gt a b = (a > b)"
| "operator Lt a b = (a < b)"
| "operator Ge a b = (a \<ge> b)"
| "operator Le a b = (a \<le> b)"
| "operator Eq a b = (a = b)"
| "operator Ne a b = (a \<noteq> b)"

text \<open>\<open>version in versions\<close> on a tuple of numbers compares by value, so \<open>11.0 in (11, 14)\<close>.\<close>

definition py_in :: "number \<Rightarrow> number list \<Rightarrow> bool" where
  "py_in v vs = list_ex (\<lambda>w. num_val w = num_val v) vs"

text \<open>\<open>sorted(...)\<close> is a stable sort by value.\<close>

definition py_sorted :: "number list \<Rightarrow> number list" where
  "py_sorted vs = sort_key num_val vs"

subsection \<open>Classes and instances\<close>

text \<open>
  A language class (the \<open>Sub\<close> that the decorator builds): \<open>__qualname__\<close>, \<open>__name__\<close>,
  \<open>aliases\<close> and the class attribute \<open>versions\<close> (named \<open>cls_versions\<close> here, since the
  instance attribute has the same name). The decorator gives \<open>versions\<close> a default
  but \<open>aliases\<close> none: \<open>aliases\<close> is \<open>None\<close> for a class declared without them. The
  identity of the class object is not modelled: two classes are the same when their
  four attributes agree.
\<close>

record lang_class =
  qualname :: string
  cls_name :: string
  aliases :: "string list option"
  cls_versions :: "number list"

record language =
  inst_type :: lang_class
  versions :: "number list"

datatype error =
    NoVersionsLeft            \<comment> \<open>\<open>ValueError('No versions left')\<close>\<close>
  | CouldNotConvert string    \<comment> \<open>\<open>ValueError\<close> of \<open>float(token)\<close>\<close>
  | NotEnoughValues           \<comment> \<open>\<open>ValueError\<close> of unpacking an empty list\<close>
  | AttributeError
  | AssertionError
  | RecursionError

text \<open>
  \<open>LanguageMeta.__call__\<close> on \<open>Language\<close> itself (the decorator): the new class takes the
  names and aliases of the declaration, sorts its versions and is appended to \<open>all\<close>.
\<close>

definition LanguageMeta_call :: "lang_class list \<Rightarrow> lang_class \<Rightarrow> lang_class \<times> lang_class list" where
  "LanguageMeta_call all arg =
     (let Sub = arg\<lparr>cls_versions := py_sorted (cls_versions arg)\<rparr>
      in (Sub, all @ [Sub]))"

text \<open>
  \<open>Language.__init__\<close>, reached through \<open>cls(*versions)\<close> on a registered class. A
  failing \<open>assert\<close> is the error \<open>AssertionError\<close>.
\<close>

definition Language_init :: "lang_class \<Rightarrow> number list \<Rightarrow> error + language" where
  "Language_init cls vs =
     (if \<not> list_all (\<lambda>version. py_in version (cls_versions cls)) vs then Inl AssertionError
      else if vs = [] then Inr \<lparr>inst_type = cls, versions = cls_versions cls\<rparr>
      else Inr \<lparr>inst_type = cls, versions = py_sorted vs\<rparr>)"

text \<open>\<open>limit_versions\<close> with a number as limit.\<close>

definition limit_versions :: "language \<Rightarrow> number \<Rightarrow> relop \<Rightarrow> error + language" where
  "limit_versions lang limit opr =
     (let vs = (case limit of
                  PInt l \<Rightarrow> filter (\<lambda>version. operator opr (of_int (py_int version)) (of_int l))
                                   (versions lang)
                | PFloat l \<Rightarrow> filter (\<lambda>version. operator opr (num_val version) l)
                                   (versions lang))
      in if vs = [] then Inl NoVersionsLeft
         else Language_init (inst_type lang) vs)"

subsection \<open>Strings and the built-ins taken as parameters\<close>

text \<open>
  A \<open>char\<close> stands for a code point below 256. \<open>isspace\<close> is \<open>str.isspace\<close> on
  these, which is also the class \<open>\s\<close> of \<open>re\<close> and the separator of \<open>str.rsplit()\<close>;
  \<open>lower\<close> is \<open>str.lower\<close>.
\<close>

definition isspace :: "char \<Rightarrow> bool" where
  "isspace c = (c \<in> {CHR 0x09, CHR 0x0A, CHR 0x0B, CHR 0x0C, CHR 0x0D,
                      CHR 0x1C, CHR 0x1D, CHR 0x1E, CHR 0x1F, CHR 0x20, CHR 0x85, CHR 0xA0})"

definition lower_char :: "char \<Rightarrow> char" where
  "lower_char c =
     (let n = (of_char c :: nat)
      in if (65 \<le> n \<and> n \<le> 90) \<or> (192 \<le> n \<and> n \<le> 222 \<and> n \<noteq> 215)
         then char_of (n + 32) else c)"

definition lower :: "string \<Rightarrow> string" where
  "lower s = map lower_char s"

text \<open>
  The two built-ins whose results depend on floating-point conversion are parameters of
  the model: \<open>float_of\<close> is \<open>float(token)\<close> (\<open>None\<close> when it raises \<open>ValueError\<close>),
  \<open>str_of\<close> is \<open>str(number)\<close>. Every theorem below holds for whatever they compute.
\<close>

record python =
  float_of :: "string \<Rightarrow> rat option"
  str_of :: "number \<Rightarrow> string"

text \<open>\<open>', '.join(...)\<close> and its general form.\<close>

fun join :: "string \<Rightarrow> string list \<Rightarrow> string" where
  "join sep [] = []"
| "join sep [t] = t"
| "join sep (t # u # ts) = t @ sep @ join sep (u # ts)"

text \<open>\<open>Language.__str__\<close>.\<close>

definition Language_str :: "python \<Rightarrow> language \<Rightarrow> string" where
  "Language_str py self =
     qualname (inst_type self) @ '' '' @ join '', '' (map (str_of py) (versions self))"

text \<open>What the parser and the membership test are given: a string or an instance.\<close>

datatype item = Str string | Inst language

fun str :: "python \<Rightarrow> item \<Rightarrow> string" where
  "str py (Str s) = s"
| "str py (Inst l) = Language_str py l"

subsection \<open>The parser\<close>

text \<open>
  \<open>re.split(r',\s*', s)\<close>: the token up to the next comma, then the comma and the longest
  run of whitespace after it are dropped, and the rest is split in the same way.
\<close>

function re_split :: "string \<Rightarrow> string list" where
  "re_split s =
     (case dropWhile (\<lambda>c. c \<noteq> CHR '','') s of
        [] \<Rightarrow> [s]
      | _ # r \<Rightarrow> takeWhile (\<lambda>c. c \<noteq> CHR '','') s # re_split (dropWhile isspace r))"
  by pat_completeness auto
termination
proof (relation "measure length")
  show "wf (measure length)" by simp
next
  fix s :: string and x r
  assume "dropWhile (\<lambda>c. c \<noteq> CHR '','') s = x # r"
  then have "length r < length s"
    using length_dropWhile_le [of "\<lambda>c. c \<noteq> CHR '',''" s] by simp
  moreover have "length (dropWhile isspace r) \<le> length r"
    by (rule length_dropWhile_le)
  ultimately show "(dropWhile isspace r, s) \<in> measure length" by simp
qed

declare re_split.simps [simp del]

text \<open>
  \<open>s.rsplit(maxsplit=1)\<close>: trailing whitespace is skipped, the last word is cut off, the
  whitespace before it is skipped, and what is left (if anything) is the first part.
\<close>

definition rsplit1 :: "string \<Rightarrow> string list" where
  "rsplit1 s =
     (let r = dropWhile isspace (rev s)
      in if r = [] then []
         else let word = rev (takeWhile (\<lambda>c. \<not> isspace c) r);
                  rest = dropWhile isspace (dropWhile (\<lambda>c. \<not> isspace c) r)
              in if rest = [] then [word] else [rev rest, word])"

text \<open>\<open>list(map(float, str_versions))\<close>: the first token that does not convert raises.\<close>

fun map_float :: "python \<Rightarrow> string list \<Rightarrow> error + number list" where
  "map_float py [] = Inr []"
| "map_float py (t # ts) =
     (case float_of py t of
        None \<Rightarrow> Inl (CouldNotConvert t)
      | Some v \<Rightarrow> (case map_float py ts of Inl e \<Rightarrow> Inl e | Inr vs \<Rightarrow> Inr (PFloat v # vs)))"

text \<open>
  \<open>parse_lang_str\<close>. In the \<open>try\<close> block the tuple assignment rebinds \<open>name\<close> before
  \<open>float(version)\<close> runs, so \<open>name\<close> is the shortened one in both branches below.
\<close>

definition parse_lang_str :: "python \<Rightarrow> item \<Rightarrow> error + (string \<times> number list)" where
  "parse_lang_str py string =
     (case re_split (str py string) of
        [] \<Rightarrow> Inl NotEnoughValues
      | name # str_versions \<Rightarrow>
          (case map_float py str_versions of
             Inl e \<Rightarrow> Inl e
           | Inr vs \<Rightarrow>
               (case rsplit1 name of
                  [name', version] \<Rightarrow>
                    (case float_of py version of
                       None \<Rightarrow> Inr (name', vs)
                     | Some v \<Rightarrow> Inr (name', PFloat v # vs))
                | _ \<Rightarrow> Inr (name, vs))))"

subsection \<open>The registry\<close>

text \<open>
  \<open>LanguageMeta.__contains__\<close>. On a class declared without aliases, \<open>cls.aliases\<close> is
  not found and falls into \<open>LanguageMeta.__getattr__\<close>, which tests \<open>'aliases' in lang\<close>
  on the registered classes in order and so reads \<open>aliases\<close> of such a class again: the
  calls never come to an end and Python raises \<open>RecursionError\<close>. (A registry in which
  some class answers to the name \<open>aliases\<close> is outside the model.)
\<close>

definition LanguageMeta_contains :: "python \<Rightarrow> lang_class \<Rightarrow> item \<Rightarrow> error + bool" where
  "LanguageMeta_contains py cls item =
     (case parse_lang_str py item of
        Inl e \<Rightarrow> Inl e
      | Inr (name, vs) \<Rightarrow>
          (case aliases cls of
             None \<Rightarrow> Inl RecursionError
           | Some als \<Rightarrow>
               Inr (lower name \<in> set (map lower (als @ [qualname cls, cls_name cls]))
                    \<and> (vs = [] \<or> list_all (\<lambda>version. py_in version (cls_versions cls)) vs))))"

text \<open>
  \<open>LanguageMeta.__getattr__\<close> over the registry \<open>all\<close>: the first class that contains the
  item; an exception of the membership test passes through.
\<close>

fun LanguageMeta_getattr :: "python \<Rightarrow> lang_class list \<Rightarrow> string \<Rightarrow> error + lang_class" where
  "LanguageMeta_getattr py [] item = Inl AttributeError"
| "LanguageMeta_getattr py (lang # langs) item =
     (case LanguageMeta_contains py lang (Str item) of
        Inl e \<Rightarrow> Inl e
      | Inr True \<Rightarrow> Inr lang
      | Inr False \<Rightarrow> LanguageMeta_getattr py langs item)"

text \<open>
  \<open>LanguageMeta.__getitem__\<close> on \<open>Language\<close>: \<open>Language[item]\<close>. Here
  \<open>getattr(cls, name)\<close> is \<open>__getattr__\<close>; the names of attributes that the class object
  \<open>Language\<close> itself has, such as \<open>__doc__\<close>, never reach it and are outside the model.
\<close>

definition LanguageMeta_getitem :: "python \<Rightarrow> lang_class list \<Rightarrow> item \<Rightarrow> error + language" where
  "LanguageMeta_getitem py all item =
     (case parse_lang_str py item of
        Inl e \<Rightarrow> Inl e
      | Inr (name, vs) \<Rightarrow>
          (case LanguageMeta_getattr py all name of
             Inl e \<Rightarrow> Inl e
           | Inr cls \<Rightarrow> Language_init cls vs))"

subsection \<open>Comparison methods\<close>

text \<open>
  When the limit is itself an instance, \<open>isinstance(limit, int)\<close> is false and
  \<open>operator(version, limit)\<close> compares a number with an instance. The number's own
  method answers \<open>NotImplemented\<close>, so Python calls the reflected method of the instance,
  \<open>limit.__eq__(version)\<close> for \<open>==\<close>, which is \<open>limit_versions\<close> again with the number as
  limit. What it returns is an instance, which is true as a condition; what it raises
  passes through the list comprehension.
\<close>

fun reflected :: "relop \<Rightarrow> relop" where
  "reflected Gt = Lt"
| "reflected Lt = Gt"
| "reflected Ge = Le"
| "reflected Le = Ge"
| "reflected Eq = Eq"
| "reflected Ne = Ne"

fun filter_raising :: "('a \<Rightarrow> error + bool) \<Rightarrow> 'a list \<Rightarrow> error + 'a list" where
  "filter_raising p [] = Inr []"
| "filter_raising p (x # xs) =
     (case p x of
        Inl e \<Rightarrow> Inl e
      | Inr b \<Rightarrow> (case filter_raising p xs of
                   Inl e \<Rightarrow> Inl e
                 | Inr ys \<Rightarrow> Inr (if b then x # ys else ys)))"

definition limit_versions_inst :: "language \<Rightarrow> language \<Rightarrow> relop \<Rightarrow> error + language" where
  "limit_versions_inst lang limit opr =
     (case filter_raising
             (\<lambda>version. case limit_versions limit version (reflected opr) of
                           Inl e \<Rightarrow> Inl e
                         | Inr r \<Rightarrow> Inr True)
             (versions lang) of
        Inl e \<Rightarrow> Inl e
      | Inr vs \<Rightarrow> if vs = [] then Inl NoVersionsLeft
                  else Language_init (inst_type lang) vs)"

text \<open>
  The methods \<open>__gt__\<close>, \<open>__lt__\<close>, \<open>__ge__\<close>, \<open>__le__\<close>, \<open>__eq__\<close> and \<open>__ne__\<close> of
  \<open>Language\<close> are \<open>limit_versions(self, other, operator.gt)\<close> and so on: \<open>Language_cmp Gt\<close>,
  ..., \<open>Language_cmp Ne\<close>. Those of \<open>LanguageMeta\<close> are \<open>cls() > other\<close> and so on.
\<close>

datatype operand = Num number | Lang language

definition Language_cmp :: "relop \<Rightarrow> language \<Rightarrow> operand \<Rightarrow> error + language" where
  "Language_cmp opr self other =
     (case other of
        Num limit \<Rightarrow> limit_versions self limit opr
      | Lang limit \<Rightarrow> limit_versions_inst self limit opr)"

definition LanguageMeta_cmp :: "relop \<Rightarrow> lang_class \<Rightarrow> operand \<Rightarrow> error + language" where
  "LanguageMeta_cmp opr cls other =
     (case Language_init cls [] of
        Inl e \<Rightarrow> Inl e
      | Inr self \<Rightarrow> Language_cmp opr self other)"

text \<open>
  Objects: a heap is the list of the instances created so far and a reference is an
  index into it. A comparison method reads its receiver and returns a reference to the
  object that \<open>type(language)(*versions)\<close> creates.
\<close>

type_synonym heap = "language list"

definition Language_cmp_ref :: "relop \<Rightarrow> heap \<Rightarrow> nat \<Rightarrow> operand \<Rightarrow> error + (heap \<times> nat)" where
  "Language_cmp_ref opr h self other =
     (case Language_cmp opr (h ! self) other of
        Inl e \<Rightarrow> Inl e
      | Inr r \<Rightarrow> Inr (h @ [r], length h))"

subsection \<open>Attribute assignment\<close>

text \<open>
  \<open>aspectbase.__setattr__\<close> raises for every name and value. \<open>Language\<close> does not derive
  from \<open>aspectbase\<close> and defines no \<open>__setattr__\<close>: an assignment to an attribute of an
  instance, such as \<open>self.versions = ...\<close> in \<open>__init__\<close>, is Python's default one and
  stores the value. Of the attributes of an instance the model keeps \<open>versions\<close>.
\<close>

definition aspectbase_setattr :: "'self \<Rightarrow> string \<Rightarrow> 'v \<Rightarrow> error + 'self" where
  "aspectbase_setattr self name v = Inl AttributeError"

definition Language_setattr :: "language \<Rightarrow> string \<Rightarrow> number list \<Rightarrow> error + language" where
  "Language_setattr self name v =
     Inr (if name = ''versions'' then self\<lparr>versions := v\<rparr> else self)"

subsection \<open>Well-formed classes and instances\<close>

text \<open>
  The decorator sorts the versions of a class; \<open>__init__\<close> gives an instance versions of
  its class, in ascending order. These are the classes and instances that the module
  builds.
\<close>

definition wf_class :: "lang_class \<Rightarrow> bool" where
  "wf_class cls = sorted (map num_val (cls_versions cls))"

definition wf_language :: "language \<Rightarrow> bool" where
  "wf_language l =
     (list_all (\<lambda>version. py_in version (cls_versions (inst_type l))) (versions l)
      \<and> sorted (map num_val (versions l)))"

text \<open>
  The comparison as the specification words it: \<open>op(int(v), limit)\<close> when the limit is
  an integer, \<open>op(v, limit)\<close> otherwise.
\<close>

fun limit_holds :: "relop \<Rightarrow> number \<Rightarrow> number \<Rightarrow> bool" where
  "limit_holds opr (PInt l) version = operator opr (of_int (py_int version)) (of_int l)"
| "limit_holds opr (PFloat l) version = operator opr (num_val version) l"

subsection \<open>The contract of the parser, as the specification words it\<close>

text \<open>
  A list of tokens with the separators between them, put back together; a separator of
  \<open>,\s*\<close> is a comma followed by whitespace only.
\<close>

fun interleave :: "string list \<Rightarrow> string list \<Rightarrow> string" where
  "interleave [] seps = []"
| "interleave (t # ts) [] = t"
| "interleave (t # ts) (sep # seps) = t @ sep @ interleave ts seps"

definition is_separator :: "string \<Rightarrow> bool" where
  "is_separator sep = (case sep of [] \<Rightarrow> False | c # ws \<Rightarrow> c = CHR '','' \<and> list_all isspace ws)"

text \<open>
  The specification of the split: the tokens hold no comma, no token after the first
  begins with whitespace, and the text is the tokens with separators between them.
\<close>

definition comma_split :: "string \<Rightarrow> string list \<Rightarrow> bool" where
  "comma_split s toks =
     (toks \<noteq> []
      \<and> (\<forall>t \<in> set toks. CHR '','' \<notin> set t)
      \<and> (\<forall>t \<in> set (tl toks). t = [] \<or> \<not> isspace (hd t))
      \<and> (\<exists>seps. length seps + 1 = length toks \<and> list_all is_separator seps
                 \<and> interleave toks seps = s))"

text \<open>
  The specification of the split of the first token at its last run of whitespace:
  \<open>n\<close>, whitespace, the last word \<open>w\<close>, and possibly whitespace after it.
\<close>

definition last_word_split :: "string \<Rightarrow> string \<Rightarrow> string \<Rightarrow> bool" where
  "last_word_split t n w =
     (\<exists>ws ws'. t = n @ ws @ w @ ws'
        \<and> n \<noteq> [] \<and> \<not> isspace (last n)
        \<and> ws \<noteq> [] \<and> list_all isspace ws
        \<and> w \<noteq> [] \<and> \<not> list_ex isspace w
        \<and> list_all isspace ws')"

text \<open>
  Name lookup as the specification words it: the first registered class whose
  canonical name or one of whose aliases equals the identifier, ignoring case.
\<close>

definition alias_list :: "lang_class \<Rightarrow> string list" where
  "alias_list cls = (case aliases cls of None \<Rightarrow> [] | Some als \<Rightarrow> als)"

definition spec_lookup_by_name :: "lang_class list \<Rightarrow> string \<Rightarrow> error + lang_class" where
  "spec_lookup_by_name all ident =
     (case find (\<lambda>cls. lower ident \<in> set (map lower (qualname cls # alias_list cls))) all of
        None \<Rightarrow> Inl AttributeError
      | Some cls \<Rightarrow> Inr cls)"

subsection \<open>Decimal literals for the examples\<close>

text \<open>
  To run the examples, \<open>float\<close> and \<open>str\<close> are needed on a few short literals. \<open>decimal\<close>
  reads and prints plain decimal literals (digits, at most one point, an optional
  minus sign); on these it agrees with Python up to the rounding of \<open>float\<close>, which
  none of the examples depends on.
\<close>

definition digit_val :: "char \<Rightarrow> nat option" where
  "digit_val c =
     (let n = (of_char c :: nat) in if 48 \<le> n \<and> n \<le> 57 then Some (n - 48) else None)"

fun digits_val :: "nat \<Rightarrow> string \<Rightarrow> nat option" where
  "digits_val acc [] = Some acc"
| "digits_val acc (c # cs) =
     (case digit_val c of None \<Rightarrow> None | Some d \<Rightarrow> digits_val (10 * acc + d) cs)"

definition unsigned_float :: "string \<Rightarrow> rat option" where
  "unsigned_float s =
     (let ip = takeWhile (\<lambda>c. c \<noteq> CHR ''.'') s;
          fp = drop 1 (dropWhile (\<lambda>c. c \<noteq> CHR ''.'') s)
      in if ip = [] \<and> fp = [] then None
         else case (digits_val 0 ip, digits_val 0 fp) of
                (Some i, Some f) \<Rightarrow> Some (of_nat i + of_nat f / 10 ^ length fp)
              | _ \<Rightarrow> None)"

definition decimal_float :: "string \<Rightarrow> rat option" where
  "decimal_float s =
     (case s of
        c # cs \<Rightarrow> if c = CHR ''-'' then map_option uminus (unsigned_float cs)
                  else unsigned_float s
      | [] \<Rightarrow> None)"

fun nat_digits :: "nat \<Rightarrow> nat \<Rightarrow> string" where
  "nat_digits 0 n = []"
| "nat_digits (Suc fuel) n =
     (if n < 10 then [char_of (48 + n)]
      else nat_digits fuel (n div 10) @ [char_of (48 + n mod 10)])"

fun frac_digits :: "nat \<Rightarrow> rat \<Rightarrow> string" where
  "frac_digits 0 f = []"
| "frac_digits (Suc fuel) f =
     (if f = 0 then []
      else char_of (48 + nat \<lfloor>f * 10\<rfloor>) # frac_digits fuel (f * 10 - of_int \<lfloor>f * 10\<rfloor>))"

definition int_str :: "int \<Rightarrow> string" where
  "int_str i = (if i < 0 then ''-'' else []) @ nat_digits (Suc (nat \<bar>i\<bar>)) (nat \<bar>i\<bar>)"

fun decimal_str :: "number \<Rightarrow> string" where
  "decimal_str (PInt i) = int_str i"
| "decimal_str (PFloat r) =
     (let a = \<bar>r\<bar>; fr = frac_digits 17 (a - of_int \<lfloor>a\<rfloor>)
      in (if r < 0 then ''-'' else []) @ nat_digits (Suc (nat \<lfloor>a\<rfloor>)) (nat \<lfloor>a\<rfloor>)
         @ ''.'' @ (if fr = [] then ''0'' else fr))"

definition decimal :: python where
  "decimal = \<lparr>float_of = decimal_float, str_of = decimal_str\<rparr>"

text \<open>The two classes of the docstring of \<open>Language\<close>, as the decorator builds them.\<close>

definition Python :: lang_class where
  "Python = fst (LanguageMeta_call []
     \<lparr>qualname = ''Python'', cls_name = ''Python'', aliases = Some [''py''],
      cls_versions = [PFloat (27/10), PFloat (33/10), PFloat (34/10), PFloat (35/10),
                      PFloat (36/10)]\<rparr>)"

definition CPP :: lang_class where
  "CPP = fst (LanguageMeta_call [Python]
     \<lparr>qualname = ''C++'', cls_name = ''CPP'', aliases = Some [''CXX''],
      cls_versions = [PInt 11, PInt 14, PInt 17]\<rparr>)"

text \<open>A language declared without versions: the decorator gives it the empty tuple.\<close>

definition Text :: lang_class where
  "Text = fst (LanguageMeta_call [Python, CPP]
     \<lparr>qualname = ''Text'', cls_name = ''Text'', aliases = Some [], cls_versions = []\<rparr>)"

text \<open>A second declaration under the name of Python, registered after the others.\<close>

definition Python_again :: lang_class where
  "Python_again = fst (LanguageMeta_call [Python, CPP, Text]
     \<lparr>qualname = ''Python'', cls_name = ''Python'', aliases = Some [],
      cls_versions = [PFloat (37/10)]\<rparr>)"

text \<open>An instance of Python with the given versions.\<close>

definition PythonOf :: "number list \<Rightarrow> language" where
  "PythonOf vs = \<lparr>inst_type = Python, versions = vs\<rparr>"

section \<open>Properties\<close>

subsection \<open>Construction and restriction\<close>

text \<open>
  Registration yields a well-formed class, construction on such a class a well-formed
  instance, and restriction keeps instances well-formed. On a well-formed instance the
  assertion and the sort of \<open>__init__\<close> change nothing in what \<open>limit_versions\<close>
  passes on.
\<close>

lemma py_sorted_id: "sorted (map num_val vs) \<Longrightarrow> py_sorted vs = vs"
  by (simp add: py_sorted_def sort_key_id_if_sorted)

lemma Language_init_default: "Language_init cls [] = Inr \<lparr>inst_type = cls, versions = cls_versions cls\<rparr>"
  by (simp add: Language_init_def)

lemma Language_init_sorted:
  assumes "list_all (\<lambda>version. py_in version (cls_versions cls)) vs"
    and "vs \<noteq> []" and "sorted (map num_val vs)"
  shows "Language_init cls vs = Inr \<lparr>inst_type = cls, versions = vs\<rparr>"
  using assms by (simp add: Language_init_def py_sorted_id)

lemma limit_versions_filter:
  "limit_versions lang limit opr =
     (if filter (limit_holds opr limit) (versions lang) = [] then Inl NoVersionsLeft
      else Language_init (inst_type lang) (filter (limit_holds opr limit) (versions lang)))"
proof (cases limit)
  case (PInt l)
  have "limit_holds opr (PInt l) = (\<lambda>version. operator opr (of_int (py_int version)) (of_int l))"
    by (rule ext) simp
  with PInt show ?thesis by (simp add: limit_versions_def)
next
  case (PFloat l)
  have "limit_holds opr (PFloat l) = (\<lambda>version. operator opr (num_val version) l)"
    by (rule ext) simp
  with PFloat show ?thesis by (simp add: limit_versions_def)
qed

lemma wf_filter:
  assumes "wf_language lang"
  shows "list_all (\<lambda>version. py_in version (cls_versions (inst_type lang))) (filter p (versions lang))"
    and "sorted (map num_val (filter p (versions lang)))"
proof -
  from assms show "list_all (\<lambda>version. py_in version (cls_versions (inst_type lang))) (filter p (versions lang))"
    by (simp add: wf_language_def list_all_iff)
  from assms have "sorted (map num_val (versions lang))" by (simp add: wf_language_def)
  then show "sorted (map num_val (filter p (versions lang)))"
    by (rule sorted_filter)
qed

lemma limit_versions_wf:
  assumes "wf_language lang" and "filter (limit_holds opr limit) (versions lang) \<noteq> []"
  shows "limit_versions lang limit opr =
           Inr \<lparr>inst_type = inst_type lang, versions = filter (limit_holds opr limit) (versions lang)\<rparr>"
  using assms wf_filter [OF assms(1), of "limit_holds opr limit"]
  by (simp add: limit_versions_filter Language_init_sorted)

lemma limit_versions_empty:
  assumes "filter (limit_holds opr limit) (versions lang) = []"
  shows "limit_versions lang limit opr = Inl NoVersionsLeft"
  using assms by (simp add: limit_versions_filter)

lemma Language_init_wf:
  assumes "wf_class cls" and "Language_init cls vs = Inr l"
  shows "wf_language l \<and> inst_type l = cls"
proof (cases "vs = []")
  case True
  with assms(2) have l: "l = \<lparr>inst_type = cls, versions = cls_versions cls\<rparr>"
    by (simp add: Language_init_def)
  have "list_all (\<lambda>version. py_in version (cls_versions cls)) (cls_versions cls)"
    by (auto simp: list_all_iff py_in_def list_ex_iff)
  with assms(1) l show ?thesis by (simp add: wf_language_def wf_class_def)
next
  case False
  with assms(2) have a: "list_all (\<lambda>version. py_in version (cls_versions cls)) vs"
    and l: "l = \<lparr>inst_type = cls, versions = py_sorted vs\<rparr>"
    by (auto simp: Language_init_def split: if_splits)
  from a have "list_all (\<lambda>version. py_in version (cls_versions cls)) (py_sorted vs)"
    by (simp add: list_all_iff py_sorted_def)
  moreover have "sorted (map num_val (py_sorted vs))"
    by (simp add: py_sorted_def)
  ultimately show ?thesis using l by (simp add: wf_language_def)
qed

lemma LanguageMeta_call_wf: "wf_class (fst (LanguageMeta_call all arg))"
  by (simp add: LanguageMeta_call_def wf_class_def py_sorted_def Let_def)

lemma limit_versions_keeps_wf:
  assumes "wf_language lang" and "limit_versions lang limit opr = Inr r"
  shows "wf_language r"
proof -
  from assms(2) have ne: "filter (limit_holds opr limit) (versions lang) \<noteq> []"
    using limit_versions_empty [of opr limit lang] by auto
  from limit_versions_wf [OF assms(1) ne] assms(2)
  have r: "r = \<lparr>inst_type = inst_type lang,
                 versions = filter (limit_holds opr limit) (versions lang)\<rparr>"
    by simp
  show ?thesis
    using wf_filter [OF assms(1), of "limit_holds opr limit"]
    by (simp add: r wf_language_def)
qed


lemma Language_init_type: "Language_init cls vs = Inr l \<Longrightarrow> inst_type l = cls"
  by (auto simp: Language_init_def split: if_splits)

lemma py_sorted_Nil: "py_sorted vs = [] \<longleftrightarrow> vs = []"
proof -
  have "length (py_sorted vs) = length vs" by (simp add: py_sorted_def)
  then show ?thesis by (metis length_0_conv)
qed

lemma Language_init_versions_empty:
  "Language_init cls vs = Inr l \<Longrightarrow> (versions l = [] \<longleftrightarrow> vs = [] \<and> cls_versions cls = [])"
  by (auto simp: Language_init_def py_sorted_Nil split: if_splits)

lemma limit_versions_type: "limit_versions lang limit opr = Inr r \<Longrightarrow> inst_type r = inst_type lang"
  by (auto simp: limit_versions_filter Language_init_type split: if_splits)

lemma limit_versions_nonempty: "limit_versions lang limit opr = Inr r \<Longrightarrow> versions r \<noteq> []"
  by (auto simp: limit_versions_filter Language_init_versions_empty split: if_splits)

lemma limit_versions_inst_type:
  "limit_versions_inst lang limit opr = Inr r \<Longrightarrow> inst_type r = inst_type lang"
  by (auto simp: limit_versions_inst_def Language_init_type split: sum.splits if_splits)

lemma limit_versions_inst_nonempty:
  "limit_versions_inst lang limit opr = Inr r \<Longrightarrow> versions r \<noteq> []"
  by (auto simp: limit_versions_inst_def Language_init_versions_empty split: sum.splits if_splits)

lemma Language_cmp_type: "Language_cmp opr self other = Inr r \<Longrightarrow> inst_type r = inst_type self"
  by (cases other) (auto simp: Language_cmp_def limit_versions_type limit_versions_inst_type)

lemma Language_cmp_nonempty: "Language_cmp opr self other = Inr r \<Longrightarrow> versions r \<noteq> []"
  by (cases other) (auto simp: Language_cmp_def limit_versions_nonempty limit_versions_inst_nonempty)

text \<open>
  C3. For an instance that the module has built, with versions \<open>vs\<close>, a relational
  operator and a numeric limit, the restriction yields exactly the versions of \<open>vs\<close> for
  which the comparison holds, in their original order: the comparison is
  \<open>op(int(v), limit)\<close> when the limit is an \<open>int\<close> and \<open>op(v, limit)\<close> otherwise. When
  no version is left the restriction raises instead. With the versions 2.7, 3.3, 3.4,
  3.5, 3.6, restricting by \<open>== 3\<close> yields 3.3, 3.4, 3.5, 3.6.
\<close>

theorem limit_versions_restricts:
  assumes "wf_language lang"
  shows "limit_versions lang limit opr =
     (if filter (limit_holds opr limit) (versions lang) = [] then Inl NoVersionsLeft
      else Inr \<lparr>inst_type = inst_type lang,
                versions = filter (limit_holds opr limit) (versions lang)\<rparr>)"
  using limit_versions_wf [OF assms] limit_versions_empty by simp

theorem limit_versions_restricts_witness:
  "wf_language \<lparr>inst_type = Python, versions = cls_versions Python\<rparr>
   \<and> limit_versions \<lparr>inst_type = Python, versions = cls_versions Python\<rparr> (PInt 3) Eq =
       Inr \<lparr>inst_type = Python,
            versions = [PFloat (33/10), PFloat (34/10), PFloat (35/10), PFloat (36/10)]\<rparr>"
proof -
  let ?p = "\<lparr>inst_type = Python, versions = cls_versions Python\<rparr>"
  have wf: "wf_language ?p" by code_simp
  have f: "filter (limit_holds Eq (PInt 3)) (cls_versions Python) =
             [PFloat (33/10), PFloat (34/10), PFloat (35/10), PFloat (36/10)]"
    by code_simp
  show ?thesis
    using wf limit_versions_restricts [OF wf, of "PInt 3" Eq] by (simp add: f)
qed

subsection \<open>Empty version sequences\<close>

text \<open>
  C4, as stated, fails for construction: the default instance of a class declared
  without versions has no versions, and nothing is raised.
\<close>

theorem Language_init_versionless_counterexample:
  "Language_init Text [] = Inr \<lparr>inst_type = Text, versions = []\<rparr>"
  by code_simp

text \<open>
  C4, amended. An instance that a relational operator returns has at least one version,
  and a restriction that no version satisfies raises \<open>No versions left\<close> instead of
  building an instance (\<open>instance > 10\<close> on Python fails). Construction has no such
  check: it yields an instance without versions exactly when no version is given and
  the class has none.
\<close>

theorem no_versions_left:
  "(Language_cmp opr self other = Inr r \<longrightarrow> versions r \<noteq> [])
   \<and> (filter (limit_holds opr limit) (versions self) = [] \<longrightarrow>
        Language_cmp opr self (Num limit) = Inl NoVersionsLeft)
   \<and> (Language_init cls vs = Inr l \<longrightarrow> (versions l = [] \<longleftrightarrow> vs = [] \<and> cls_versions cls = []))"
  using Language_cmp_nonempty [of opr self other r] limit_versions_empty [of opr limit self]
    Language_init_versions_empty [of cls vs l]
  by (simp add: Language_cmp_def)

theorem no_versions_left_witness:
  "Language_cmp Gt \<lparr>inst_type = Python, versions = cls_versions Python\<rparr> (Num (PInt 10))
     = Inl NoVersionsLeft
   \<and> Language_cmp Gt \<lparr>inst_type = Python, versions = cls_versions Python\<rparr> (Num (PFloat (33/10)))
     = Inr \<lparr>inst_type = Python, versions = [PFloat (34/10), PFloat (35/10), PFloat (36/10)]\<rparr>
   \<and> [PFloat (34/10), PFloat (35/10), PFloat (36/10)] \<noteq> []"
proof -
  let ?p = "\<lparr>inst_type = Python, versions = cls_versions Python\<rparr>"
  let ?r = "\<lparr>inst_type = Python, versions = [PFloat (34/10), PFloat (35/10), PFloat (36/10)]\<rparr>"
  have e: "filter (limit_holds Gt (PInt 10)) (cls_versions Python) = []" by code_simp
  have g: "Language_cmp Gt ?p (Num (PFloat (33/10))) = Inr ?r" by code_simp
  from no_versions_left [of Gt ?p "Num (PFloat (33/10))" ?r "PInt 10" Python "[]" ?p] e g
  show ?thesis by simp
qed

subsection \<open>The limit's type decides on truncation\<close>

text \<open>
  C10. Truncation is dispatched on the type of the limit, not on its value: for an
  instance that the module has built and a float limit with a whole value \<open>k\<close>, the
  versions are compared as they are, without \<open>int(...)\<close>. So \<open>== 3\<close> and \<open>== 3.0\<close> can
  differ on the same versions: on those of Python the first keeps 3.3 to 3.6 and the
  second leaves nothing.
\<close>

theorem float_limit_compares_raw:
  "(wf_language lang \<longrightarrow>
      limit_versions lang (PFloat (of_int k)) opr =
        (if filter (\<lambda>v. operator opr (num_val v) (of_int k)) (versions lang) = []
         then Inl NoVersionsLeft
         else Inr \<lparr>inst_type = inst_type lang,
                   versions = filter (\<lambda>v. operator opr (num_val v) (of_int k)) (versions lang)\<rparr>))
   \<and> (\<exists>l. wf_language l \<and> limit_versions l (PInt 3) Eq \<noteq> limit_versions l (PFloat (of_int 3)) Eq)"
proof
  have h: "limit_holds opr (PFloat (of_int k)) = (\<lambda>v. operator opr (num_val v) (of_int k))"
    by (rule ext) simp
  show "wf_language lang \<longrightarrow>
      limit_versions lang (PFloat (of_int k)) opr =
        (if filter (\<lambda>v. operator opr (num_val v) (of_int k)) (versions lang) = []
         then Inl NoVersionsLeft
         else Inr \<lparr>inst_type = inst_type lang,
                   versions = filter (\<lambda>v. operator opr (num_val v) (of_int k)) (versions lang)\<rparr>)"
    using limit_versions_wf [of lang opr "PFloat (of_int k)"]
      limit_versions_empty [of opr "PFloat (of_int k)" lang]
    by (simp add: h)
next
  let ?p = "\<lparr>inst_type = Python, versions = cls_versions Python\<rparr>"
  have "wf_language ?p" by code_simp
  moreover have "limit_versions ?p (PInt 3) Eq \<noteq> limit_versions ?p (PFloat (of_int 3)) Eq"
    by code_simp
  ultimately show "\<exists>l. wf_language l \<and> limit_versions l (PInt 3) Eq \<noteq> limit_versions l (PFloat (of_int 3)) Eq"
    by blast
qed

theorem float_limit_compares_raw_witness:
  "wf_language \<lparr>inst_type = Python, versions = cls_versions Python\<rparr>
   \<and> limit_versions \<lparr>inst_type = Python, versions = cls_versions Python\<rparr> (PFloat 3) Eq
        = Inl NoVersionsLeft
   \<and> limit_versions \<lparr>inst_type = Python, versions = cls_versions Python\<rparr> (PFloat 3) Gt
        = Inr \<lparr>inst_type = Python,
               versions = [PFloat (33/10), PFloat (34/10), PFloat (35/10), PFloat (36/10)]\<rparr>"
proof -
  let ?p = "\<lparr>inst_type = Python, versions = cls_versions Python\<rparr>"
  have wf: "wf_language ?p" by code_simp
  have e: "filter (\<lambda>v. operator Eq (num_val v) 3) (cls_versions Python) = []"
    by code_simp
  have g: "filter (\<lambda>v. operator Gt (num_val v) 3) (cls_versions Python) =
      [PFloat (33/10), PFloat (34/10), PFloat (35/10), PFloat (36/10)]"
    by code_simp
  from float_limit_compares_raw [of ?p 3 Eq] float_limit_compares_raw [of ?p 3 Gt] wf e g
  show ?thesis by simp
qed

subsection \<open>Comparison methods return new instances\<close>

text \<open>
  C9. A relational operator with a numeric limit, when it returns, returns a reference
  to a new instance of the receiver's class and leaves every existing object, the
  receiver included, as it was; it does return when the receiver was built by the
  module and some version satisfies the limit. The same operator on a class is the
  operator on the default instance of the class, which carries all its versions.
\<close>

theorem comparison_returns_new_instance:
  "(self < length h \<longrightarrow> Language_cmp_ref opr h self (Num limit) = Inr (h', r) \<longrightarrow>
       r = length h \<and> length h' = Suc (length h) \<and> (\<forall>a < length h. h' ! a = h ! a)
       \<and> inst_type (h' ! r) = inst_type (h ! self))
   \<and> (self < length h \<longrightarrow> wf_language (h ! self) \<longrightarrow>
       filter (limit_holds opr limit) (versions (h ! self)) \<noteq> [] \<longrightarrow>
       (\<exists>h' r. Language_cmp_ref opr h self (Num limit) = Inr (h', r)))
   \<and> LanguageMeta_cmp opr cls other =
       Language_cmp opr \<lparr>inst_type = cls, versions = cls_versions cls\<rparr> other"
proof -
  have a: "r = length h \<and> length h' = Suc (length h) \<and> (\<forall>a < length h. h' ! a = h ! a)
       \<and> inst_type (h' ! r) = inst_type (h ! self)"
    if c: "Language_cmp_ref opr h self (Num limit) = Inr (h', r)"
  proof -
    from c obtain x where x: "Language_cmp opr (h ! self) (Num limit) = Inr x"
      and h': "h' = h @ [x]" and r: "r = length h"
      by (auto simp: Language_cmp_ref_def split: sum.splits)
    from x have "inst_type x = inst_type (h ! self)" by (rule Language_cmp_type)
    with h' r show ?thesis by (simp add: nth_append)
  qed
  have b: "\<exists>h' r. Language_cmp_ref opr h self (Num limit) = Inr (h', r)"
    if "wf_language (h ! self)"
      and "filter (limit_holds opr limit) (versions (h ! self)) \<noteq> []"
    using that by (simp add: Language_cmp_ref_def Language_cmp_def limit_versions_wf)
  have c: "LanguageMeta_cmp opr cls other =
       Language_cmp opr \<lparr>inst_type = cls, versions = cls_versions cls\<rparr> other"
    by (simp add: LanguageMeta_cmp_def Language_init_default)
  from a b c show ?thesis by blast
qed

theorem comparison_returns_new_instance_witness:
  "(0::nat) < length [\<lparr>inst_type = Python, versions = cls_versions Python\<rparr>]
   \<and> Language_cmp_ref Gt [\<lparr>inst_type = Python, versions = cls_versions Python\<rparr>] 0
        (Num (PFloat (33/10)))
      = Inr ([\<lparr>inst_type = Python, versions = cls_versions Python\<rparr>,
              \<lparr>inst_type = Python, versions = [PFloat (34/10), PFloat (35/10), PFloat (36/10)]\<rparr>], 1)
   \<and> LanguageMeta_cmp Gt Python (Num (PFloat (33/10)))
      = Inr \<lparr>inst_type = Python, versions = [PFloat (34/10), PFloat (35/10), PFloat (36/10)]\<rparr>"
proof -
  let ?p = "\<lparr>inst_type = Python, versions = cls_versions Python\<rparr>"
  let ?q = "\<lparr>inst_type = Python, versions = [PFloat (34/10), PFloat (35/10), PFloat (36/10)]\<rparr>"
  have c: "Language_cmp_ref Gt [?p] 0 (Num (PFloat (33/10))) = Inr ([?p, ?q], 1)"
    by code_simp
  have d: "Language_cmp Gt ?p (Num (PFloat (33/10))) = Inr ?q"
    by code_simp
  from comparison_returns_new_instance [of 0 "[?p]" Gt "PFloat (33/10)" "[?p, ?q]" 1 Python] c d
  show ?thesis by simp
qed


subsection \<open>\<open>==\<close> between two instances\<close>

lemma filter_raising_all:
  assumes "\<And>x. x \<in> set xs \<Longrightarrow> p x = Inr True"
  shows "filter_raising p xs = Inr xs"
  using assms by (induction xs) simp_all

lemma filter_raising_fails:
  assumes "x \<in> set xs" and "p x = Inl e" and "\<And>y. y \<in> set xs \<Longrightarrow> p y = Inl e \<or> p y = Inr True"
  shows "filter_raising p xs = Inl e"
  using assms
proof (induction xs)
  case Nil
  then show ?case by simp
next
  case (Cons y ys)
  show ?case
  proof (cases "p y")
    case (Inl e')
    with Cons.prems(3) [of y] show ?thesis by simp
  next
    case (Inr b)
    with Cons.prems(3) [of y] have py: "p y = Inr True" by auto
    with Cons.prems(1,2) have "x \<in> set ys" by auto
    with Cons.IH Cons.prems(2,3) have "filter_raising p ys = Inl e" by simp
    with py show ?thesis by simp
  qed
qed

lemma filter_limit_holds_empty:
  "filter (limit_holds opr limit) vs = [] \<longleftrightarrow> \<not> list_ex (limit_holds opr limit) vs"
  by (simp add: filter_empty_conv list_ex_iff)

lemma Language_cmp_Eq_Lang:
  assumes "wf_language a" and "wf_language b"
  shows "Language_cmp Eq a (Lang b) =
           (if versions a \<noteq> [] \<and> list_all (\<lambda>v. list_ex (limit_holds Eq v) (versions b)) (versions a)
            then Inr a else Inl NoVersionsLeft)"
proof -
  define p where "p = (\<lambda>version. case limit_versions b version (reflected Eq) of
                           Inl e \<Rightarrow> Inl e
                         | Inr r \<Rightarrow> (Inr True :: error + bool))"
  have p: "p v = (if list_ex (limit_holds Eq v) (versions b) then Inr True else Inl NoVersionsLeft)" for v
    using limit_versions_wf [OF assms(2), of Eq v] limit_versions_empty [of Eq v b]
    by (simp add: p_def filter_limit_holds_empty)
  have init: "versions a \<noteq> [] \<Longrightarrow> Language_init (inst_type a) (versions a) = Inr a"
    using assms(1) by (simp add: wf_language_def Language_init_sorted)
  have c: "Language_cmp Eq a (Lang b) =
      (case filter_raising p (versions a) of Inl e \<Rightarrow> Inl e
       | Inr vs \<Rightarrow> if vs = [] then Inl NoVersionsLeft else Language_init (inst_type a) vs)"
    by (simp add: Language_cmp_def limit_versions_inst_def p_def)
  show ?thesis
  proof (cases "list_all (\<lambda>v. list_ex (limit_holds Eq v) (versions b)) (versions a)")
    case True
    then have "filter_raising p (versions a) = Inr (versions a)"
      by (intro filter_raising_all) (simp add: p list_all_iff)
    with True init show ?thesis by (simp add: c)
  next
    case False
    then obtain v where v: "v \<in> set (versions a)" and n: "\<not> list_ex (limit_holds Eq v) (versions b)"
      by (auto simp: list_all_iff)
    have "filter_raising p (versions a) = Inl NoVersionsLeft"
      by (rule filter_raising_fails [OF v]) (simp_all add: p n)
    with False show ?thesis by (simp add: c)
  qed
qed

lemma limit_holds_Eq_refl: "limit_holds Eq v v"
  by (cases v) simp_all

text \<open>
  C1, as stated, fails: \<open>Language.__eq__\<close> is the restriction by \<open>==\<close>, not a test.
  \<open>Python(3.5) == Python(3.5, 3.6)\<close> returns an instance, which is true as a condition,
  although the version sequences differ; with the operands exchanged it raises
  \<open>No versions left\<close> instead of answering false.
\<close>

theorem structural_equality_counterexample:
  "Language_cmp Eq (PythonOf [PFloat (35/10)]) (Lang (PythonOf [PFloat (35/10), PFloat (36/10)]))
      = Inr (PythonOf [PFloat (35/10)])
   \<and> versions (PythonOf [PFloat (35/10)]) \<noteq> versions (PythonOf [PFloat (35/10), PFloat (36/10)])
   \<and> Language_cmp Eq (PythonOf [PFloat (35/10), PFloat (36/10)]) (Lang (PythonOf [PFloat (35/10)]))
      = Inl NoVersionsLeft"
  by code_simp

text \<open>
  C1, amended. For two instances \<open>a\<close> and \<open>b\<close> that the module has built, \<open>a == b\<close> is
  the restriction of \<open>a\<close> with \<open>b\<close> as limit: when \<open>a\<close> has a version and every version
  \<open>v\<close> of \<open>a\<close> is matched by some version \<open>w\<close> of \<open>b\<close> (\<open>int(w) == v\<close> for an int \<open>v\<close>,
  \<open>w == v\<close> otherwise) it returns an instance of the class of \<open>a\<close> with the versions of
  \<open>a\<close>, otherwise it raises \<open>No versions left\<close>. The classes of \<open>a\<close> and \<open>b\<close> are not
  compared. In particular \<open>a == a\<close> returns an instance like \<open>a\<close> when \<open>a\<close> has a version.
\<close>

theorem eq_between_instances:
  assumes "wf_language a" and "wf_language b"
  shows "Language_cmp Eq a (Lang b) =
           (if versions a \<noteq> [] \<and> (\<forall>v \<in> set (versions a). \<exists>w \<in> set (versions b). limit_holds Eq v w)
            then Inr a else Inl NoVersionsLeft)
         \<and> (versions a \<noteq> [] \<longrightarrow> Language_cmp Eq a (Lang a) = Inr a)"
proof -
  have "list_all (\<lambda>v. list_ex (limit_holds Eq v) (versions a)) (versions a)"
    using limit_holds_Eq_refl by (auto simp: list_all_iff list_ex_iff)
  then have "versions a \<noteq> [] \<longrightarrow> Language_cmp Eq a (Lang a) = Inr a"
    by (simp add: Language_cmp_Eq_Lang [OF assms(1) assms(1)])
  moreover have "list_all (\<lambda>v. list_ex (limit_holds Eq v) (versions b)) (versions a)
      \<longleftrightarrow> (\<forall>v \<in> set (versions a). \<exists>w \<in> set (versions b). limit_holds Eq v w)"
    by (simp add: list_all_iff list_ex_iff)
  ultimately show ?thesis
    by (simp add: Language_cmp_Eq_Lang [OF assms])
qed

theorem eq_between_instances_witness:
  "wf_language (PythonOf [PFloat (35/10)])
   \<and> wf_language (PythonOf [PFloat (35/10), PFloat (36/10)])
   \<and> Language_cmp Eq (PythonOf [PFloat (35/10)]) (Lang (PythonOf [PFloat (35/10), PFloat (36/10)]))
        = Inr (PythonOf [PFloat (35/10)])
   \<and> Language_cmp Eq (PythonOf [PFloat (35/10)]) (Lang (PythonOf [PFloat (35/10)]))
        = Inr (PythonOf [PFloat (35/10)])"
proof -
  let ?a = "PythonOf [PFloat (35/10)]"
  let ?b = "PythonOf [PFloat (35/10), PFloat (36/10)]"
  have a: "wf_language ?a" by code_simp
  have b: "wf_language ?b" by code_simp
  have c: "versions ?a \<noteq> [] \<and> (\<forall>v \<in> set (versions ?a). \<exists>w \<in> set (versions ?b). limit_holds Eq v w)"
    by code_simp
  from eq_between_instances [OF a b] a b c show ?thesis
    by simp
qed

subsection \<open>Attribute assignment after construction\<close>

text \<open>
  C2, as stated, fails: assigning \<open>versions\<close> on a constructed instance of Python
  succeeds and changes the instance.
\<close>

theorem Language_setattr_counterexample:
  "Language_setattr (PythonOf [PFloat (36/10)]) ''versions'' [PFloat (27/10)]
     = Inr (PythonOf [PFloat (27/10)])"
  by code_simp

text \<open>
  C2, amended. Every attribute assignment on an instance of an \<open>aspectbase\<close> class fails
  with \<open>AttributeError\<close>, whatever the name and the value. Instances of \<open>Language\<close> have
  no such guard: assigning \<open>versions\<close> on one succeeds and replaces the versions, and
  the assignment in \<open>__init__\<close> is of this kind.
\<close>

theorem setattr_guard:
  "aspectbase_setattr obj name v = Inl AttributeError
   \<and> Language_setattr self ''versions'' vs = Inr (self\<lparr>versions := vs\<rparr>)
   \<and> (Language_init cls xs = Inr self \<longrightarrow>
        Language_setattr \<lparr>inst_type = cls, versions = ys\<rparr> ''versions'' (versions self) = Inr self)"
proof -
  have "Language_setattr \<lparr>inst_type = cls, versions = ys\<rparr> ''versions'' (versions self) = Inr self"
    if "Language_init cls xs = Inr self"
    using Language_init_type [OF that] by (simp add: Language_setattr_def)
  then show ?thesis
    by (simp add: aspectbase_setattr_def Language_setattr_def)
qed

theorem setattr_guard_witness:
  "aspectbase_setattr (PythonOf [PFloat (36/10)]) ''versions'' [PFloat (27/10)] = Inl AttributeError
   \<and> Language_setattr (PythonOf [PFloat (36/10)]) ''versions'' [PFloat (27/10)]
       = Inr (PythonOf [PFloat (27/10)])
   \<and> Language_init Python [PFloat (36/10)] = Inr (PythonOf [PFloat (36/10)])"
proof -
  have i: "Language_init Python [PFloat (36/10)] = Inr (PythonOf [PFloat (36/10)])"
    by code_simp
  from setattr_guard [of "PythonOf [PFloat (36/10)]" "''versions''" "[PFloat (27/10)]"
      "PythonOf [PFloat (36/10)]" "[PFloat (27/10)]" Python "[PFloat (36/10)]" "[]"] i
  show ?thesis by (simp add: PythonOf_def)
qed

subsection \<open>The parser\<close>

lemma re_split_last:
  "dropWhile (\<lambda>c. c \<noteq> CHR '','') s = [] \<Longrightarrow> re_split s = [s]"
  by (subst re_split.simps) (simp only: list.case)

lemma re_split_next:
  "dropWhile (\<lambda>c. c \<noteq> CHR '','') s = x # r \<Longrightarrow>
     re_split s = takeWhile (\<lambda>c. c \<noteq> CHR '','') s # re_split (dropWhile isspace r)"
  by (subst re_split.simps) (simp only: list.case)

lemma dropWhile_no_comma:
  "dropWhile (\<lambda>c. c \<noteq> CHR '','') s = [] \<longleftrightarrow> CHR '','' \<notin> set s"
  by (induction s) auto

lemma re_split_no_comma: "CHR '','' \<notin> set s \<Longrightarrow> re_split s = [s]"
  using dropWhile_no_comma [of s] by (blast intro: re_split_last)

lemma re_split_comma:
  assumes "CHR '','' \<notin> set t"
  shows "re_split (t @ CHR '','' # r) = t # re_split (dropWhile isspace r)"
proof -
  from assms have d: "dropWhile (\<lambda>c. c \<noteq> CHR '','') (t @ CHR '','' # r) = CHR '','' # r"
    by (induction t) auto
  from assms have t: "takeWhile (\<lambda>c. c \<noteq> CHR '','') (t @ CHR '','' # r) = t"
    by (induction t) auto
  show ?thesis using re_split_next [OF d] by (simp only: t)
qed

lemma re_split_not_Nil: "re_split s \<noteq> []"
  by (subst re_split.simps) (simp split: list.splits)

lemma split_at_comma:
  assumes "dropWhile (\<lambda>c. c \<noteq> CHR '','') s = x # r"
  shows "x = CHR '',''" and "s = takeWhile (\<lambda>c. c \<noteq> CHR '','') s @ CHR '','' # r"
proof -
  have "\<not> (hd (dropWhile (\<lambda>c. c \<noteq> CHR '','') s) \<noteq> CHR '','')"
    by (rule hd_dropWhile) (simp only: assms list.distinct not_False_eq_True)
  then show x: "x = CHR '',''" by (simp only: assms list.sel) simp
  have "s = takeWhile (\<lambda>c. c \<noteq> CHR '','') s @ dropWhile (\<lambda>c. c \<noteq> CHR '','') s"
    by simp
  then show "s = takeWhile (\<lambda>c. c \<noteq> CHR '','') s @ CHR '','' # r"
    by (simp only: assms x)
qed

lemma re_split_tokens_no_comma: "t \<in> set (re_split s) \<Longrightarrow> CHR '','' \<notin> set t"
proof (induction s arbitrary: t rule: re_split.induct)
  case (1 s)
  show ?case
  proof (cases "dropWhile (\<lambda>c. c \<noteq> CHR '','') s")
    case Nil
    then have "CHR '','' \<notin> set s" using dropWhile_no_comma [of s] by blast
    moreover from "1.prems" have "t = s" by (simp add: re_split_last [OF Nil])
    ultimately show ?thesis by simp
  next
    case (Cons x r)
    from "1.prems" have "t = takeWhile (\<lambda>c. c \<noteq> CHR '','') s \<or> t \<in> set (re_split (dropWhile isspace r))"
      by (simp add: re_split_next [OF Cons])
    then show ?thesis
    proof
      assume "t = takeWhile (\<lambda>c. c \<noteq> CHR '','') s"
      then show ?thesis by (auto dest: set_takeWhileD)
    next
      assume "t \<in> set (re_split (dropWhile isspace r))"
      with "1.IH" Cons show ?thesis by blast
    qed
  qed
qed


lemma re_split_head_not_space:
  "s = [] \<or> \<not> isspace (hd s) \<Longrightarrow> hd (re_split s) = [] \<or> \<not> isspace (hd (hd (re_split s)))"
proof (cases "dropWhile (\<lambda>c. c \<noteq> CHR '','') s")
  case Nil
  assume "s = [] \<or> \<not> isspace (hd s)"
  then show ?thesis by (simp add: re_split_last [OF Nil])
next
  case (Cons x r)
  assume a: "s = [] \<or> \<not> isspace (hd s)"
  have "takeWhile (\<lambda>c. c \<noteq> CHR '','') s = [] \<or> hd (takeWhile (\<lambda>c. c \<noteq> CHR '','') s) = hd s"
    by (cases s) auto
  with a show ?thesis by (auto simp: re_split_next [OF Cons])
qed

lemma dropWhile_isspace_head: "dropWhile isspace r = [] \<or> \<not> isspace (hd (dropWhile isspace r))"
  using hd_dropWhile [of isspace r] by blast

lemma re_split_tail_not_space:
  "t \<in> set (tl (re_split s)) \<Longrightarrow> t = [] \<or> \<not> isspace (hd t)"
proof (induction s arbitrary: t rule: re_split.induct)
  case (1 s)
  show ?case
  proof (cases "dropWhile (\<lambda>c. c \<noteq> CHR '','') s")
    case Nil
    with "1.prems" show ?thesis by (simp add: re_split_last [OF Nil])
  next
    case (Cons x r)
    let ?r = "dropWhile isspace r"
    from "1.prems" have t: "t \<in> set (re_split ?r)"
      by (simp add: re_split_next [OF Cons])
    have ne: "re_split ?r \<noteq> []" by (rule re_split_not_Nil)
    from t ne have "t = hd (re_split ?r) \<or> t \<in> set (tl (re_split ?r))"
      by (cases "re_split ?r") auto
    then show ?thesis
    proof
      assume "t = hd (re_split ?r)"
      with re_split_head_not_space [OF dropWhile_isspace_head, of r] show ?thesis by simp
    next
      assume "t \<in> set (tl (re_split ?r))"
      with "1.IH" Cons show ?thesis by blast
    qed
  qed
qed

lemma re_split_interleave:
  "\<exists>seps. length seps + 1 = length (re_split s) \<and> list_all is_separator seps
        \<and> interleave (re_split s) seps = s"
proof (induction s rule: re_split.induct)
  case (1 s)
  show ?case
  proof (cases "dropWhile (\<lambda>c. c \<noteq> CHR '','') s")
    case Nil
    have "length ([]::string list) + 1 = length (re_split s) \<and> list_all is_separator []
        \<and> interleave (re_split s) [] = s"
      by (simp add: re_split_last [OF Nil])
    then show ?thesis by blast
  next
    case (Cons x r)
    let ?r = "dropWhile isspace r"
    let ?t = "takeWhile (\<lambda>c. c \<noteq> CHR '','') s"
    from "1.IH" [OF Cons] obtain seps where seps: "length seps + 1 = length (re_split ?r)"
      "list_all is_separator seps" "interleave (re_split ?r) seps = ?r"
      by blast
    let ?sep = "CHR '','' # takeWhile isspace r"
    have sep: "is_separator ?sep"
      by (auto simp: is_separator_def list_all_iff dest: set_takeWhileD)
    have s: "s = ?t @ CHR '','' # r" by (rule split_at_comma(2) [OF Cons])
    have "interleave (re_split s) (?sep # seps) = ?t @ ?sep @ ?r"
      by (simp add: re_split_next [OF Cons] seps(3))
    also have "\<dots> = ?t @ CHR '','' # r" by simp
    also have "\<dots> = s" using s by simp
    finally have "interleave (re_split s) (?sep # seps) = s" .
    moreover have "length (?sep # seps) + 1 = length (re_split s)"
      using seps(1) by (simp add: re_split_next [OF Cons])
    moreover have "list_all is_separator (?sep # seps)" using sep seps(2) by simp
    ultimately show ?thesis by blast
  qed
qed

lemma re_split_comma_split: "comma_split s (re_split s)"
  unfolding comma_split_def
  using re_split_not_Nil [of s] re_split_tokens_no_comma [of _ s]
    re_split_tail_not_space [of _ s] re_split_interleave [of s]
  by blast




lemma dropWhile_all: "list_all p xs \<Longrightarrow> dropWhile p (xs @ ys) = dropWhile p ys"
  by (induction xs) simp_all

lemma takeWhile_all: "list_all p xs \<Longrightarrow> takeWhile p (xs @ ys) = xs @ takeWhile p ys"
  by (induction xs) simp_all

lemma dropWhile_head: "ys \<noteq> [] \<Longrightarrow> \<not> p (hd ys) \<Longrightarrow> dropWhile p ys = ys"
  by (cases ys) simp_all

lemma takeWhile_head: "ys \<noteq> [] \<Longrightarrow> \<not> p (hd ys) \<Longrightarrow> takeWhile p ys = []"
  by (cases ys) simp_all

lemma rsplit1_both:
  assumes "last_word_split t n w"
  shows "rsplit1 t = [n, w]"
proof -
  from assms obtain ws ws' where t: "t = n @ ws @ w @ ws'"
    and n: "n \<noteq> []" "\<not> isspace (last n)"
    and ws: "ws \<noteq> []" "list_all isspace ws"
    and w: "w \<noteq> []" "\<not> list_ex isspace w"
    and ws': "list_all isspace ws'"
    unfolding last_word_split_def by blast
  let ?ns = "\<lambda>c. \<not> isspace c"
  have rt: "rev t = rev ws' @ rev w @ rev ws @ rev n" by (simp add: t)
  have w_ns: "list_all ?ns (rev w)" using w(2) by (simp add: list_all_iff list_ex_iff)
  have hw: "rev w @ rev ws @ rev n \<noteq> []" "\<not> isspace (hd (rev w @ rev ws @ rev n))"
    using w by (simp_all add: hd_append hd_rev list_ex_iff)
  have r: "dropWhile isspace (rev t) = rev w @ rev ws @ rev n"
    using ws' dropWhile_head [of "rev w @ rev ws @ rev n" isspace] hw by (simp add: rt dropWhile_all)
  have hs: "rev ws @ rev n \<noteq> []" "\<not> ?ns (hd (rev ws @ rev n))"
    using ws by (simp_all add: hd_append hd_rev list_all_iff)
  have word: "takeWhile ?ns (rev w @ rev ws @ rev n) = rev w"
    using takeWhile_all [OF w_ns, of "rev ws @ rev n"] takeWhile_head [of "rev ws @ rev n" ?ns] hs by simp
  have d1: "dropWhile ?ns (rev w @ rev ws @ rev n) = rev ws @ rev n"
    using dropWhile_all [OF w_ns, of "rev ws @ rev n"] dropWhile_head [of "rev ws @ rev n" ?ns] hs by simp
  have hn: "rev n \<noteq> []" "\<not> isspace (hd (rev n))" using n by (simp_all add: hd_rev)
  have ws_s: "list_all isspace (rev ws)" using ws(2) by simp
  have rest: "dropWhile isspace (rev ws @ rev n) = rev n"
    using dropWhile_all [OF ws_s, of "rev n"] dropWhile_head [of "rev n" isspace] hn by simp
  show ?thesis
    using w(1) n(1) by (simp add: rsplit1_def r word d1 rest Let_def)
qed

lemma rsplit1_unfold:
  "rsplit1 t =
     (if dropWhile isspace (rev t) = [] then []
      else if dropWhile isspace (dropWhile (\<lambda>c. \<not> isspace c) (dropWhile isspace (rev t))) = []
           then [rev (takeWhile (\<lambda>c. \<not> isspace c) (dropWhile isspace (rev t)))]
           else [rev (dropWhile isspace (dropWhile (\<lambda>c. \<not> isspace c) (dropWhile isspace (rev t)))),
                 rev (takeWhile (\<lambda>c. \<not> isspace c) (dropWhile isspace (rev t)))])"
  unfolding rsplit1_def Let_def by (rule refl)

lemma rsplit1_two:
  assumes "rsplit1 t = [n, w]"
  shows "last_word_split t n w"
proof -
  define r where "r = dropWhile isspace (rev t)"
  define d where "d = dropWhile (\<lambda>c. \<not> isspace c) r"
  define rest where "rest = dropWhile isspace d"
  define word where "word = takeWhile (\<lambda>c. \<not> isspace c) r"
  have u: "rsplit1 t = (if r = [] then [] else if rest = [] then [rev word] else [rev rest, rev word])"
    unfolding r_def d_def rest_def word_def by (rule rsplit1_unfold)
  from assms u have r: "r \<noteq> []" by (cases "r = []") simp_all
  from assms u r have rest: "rest \<noteq> []" by (cases "rest = []") simp_all
  from assms u r rest have n: "n = rev rest" and w: "w = rev word" by simp_all
  define ws where "ws = rev (takeWhile isspace d)"
  define ws' where "ws' = rev (takeWhile isspace (rev t))"
  have 1: "rev t = rev ws' @ r" unfolding ws'_def r_def by simp
  have 2: "r = word @ d" unfolding word_def d_def by simp
  have 3: "d = rev ws @ rest" unfolding ws_def rest_def by simp
  have "rev (rev t) = rev (rev ws' @ word @ rev ws @ rest)"
    using 1 2 3 by simp
  then have t: "t = n @ ws @ w @ ws'" by (simp add: n w)
  have "\<not> isspace (hd rest)" unfolding rest_def using rest [unfolded rest_def] by (rule hd_dropWhile)
  then have ln: "\<not> isspace (last n)" using rest by (simp add: n last_rev)
  have dne: "d \<noteq> []" using rest by (auto simp: rest_def)
  have "\<not> \<not> isspace (hd d)" unfolding d_def using dne [unfolded d_def] by (rule hd_dropWhile)
  then have "takeWhile isspace d \<noteq> []" using dne by (cases "d") simp_all
  then have wsn: "ws \<noteq> []" by (simp add: ws_def)
  have "\<not> isspace (hd r)" unfolding r_def using r [unfolded r_def] by (rule hd_dropWhile)
  then have "word \<noteq> []" using r by (cases r) (simp_all add: word_def)
  then have wn: "w \<noteq> []" by (simp add: w)
  have wns: "\<not> list_ex isspace w"
    by (auto simp: w word_def list_ex_iff dest: set_takeWhileD)
  have a1: "list_all isspace ws" by (auto simp: ws_def list_all_iff dest: set_takeWhileD)
  have a2: "list_all isspace ws'" by (auto simp: ws'_def list_all_iff dest: set_takeWhileD)
  have nn: "n \<noteq> []" using rest by (simp add: n)
  show ?thesis
    unfolding last_word_split_def using t ln wsn wn wns a1 a2 nn by blast
qed

lemma rsplit1_iff: "rsplit1 t = [n, w] \<longleftrightarrow> last_word_split t n w"
  using rsplit1_both rsplit1_two by blast

lemma rsplit1_word:
  assumes "s \<noteq> []" and "\<not> list_ex isspace s"
  shows "rsplit1 s = [s]"
proof -
  let ?ns = "\<lambda>c. \<not> isspace c"
  from assms have a: "list_all ?ns (rev s)" by (simp add: list_all_iff list_ex_iff)
  from assms have h: "rev s \<noteq> []" "\<not> isspace (hd (rev s))"
    by (simp_all add: hd_rev list_ex_iff)
  have r: "dropWhile isspace (rev s) = rev s" using dropWhile_head [of "rev s" isspace] h by simp
  have tw: "takeWhile ?ns (rev s) = rev s" using takeWhile_all [OF a, of "[]"] by simp
  have dw: "dropWhile ?ns (rev s) = []" using dropWhile_all [OF a, of "[]"] by simp
  show ?thesis using assms(1) by (simp add: rsplit1_def r tw dw Let_def)
qed

lemma rsplit1_Nil: "rsplit1 [] = []"
  by (simp add: rsplit1_def)

lemma map_float_all:
  "(\<forall>t \<in> set ts. float_of py t \<noteq> None) \<Longrightarrow>
     map_float py ts = Inr (map (\<lambda>t. PFloat (the (float_of py t))) ts)"
  by (induction ts) auto

lemma map_float_fails:
  "(\<exists>e. map_float py ts = Inl e) \<longleftrightarrow> (\<exists>t \<in> set ts. float_of py t = None)"
  by (induction ts) (auto split: option.splits sum.splits)


lemma parse_lang_str_unfold:
  assumes "re_split s = name # strs"
  shows "parse_lang_str py (Str s) =
     (case map_float py strs of
        Inl e \<Rightarrow> Inl e
      | Inr vs \<Rightarrow>
          (case rsplit1 name of
             [name', version] \<Rightarrow>
               (case float_of py version of
                  None \<Rightarrow> Inr (name', vs)
                | Some v \<Rightarrow> Inr (name', PFloat v # vs))
           | _ \<Rightarrow> Inr (name, vs)))"
  by (simp add: parse_lang_str_def assms)

lemma re_split_hd_tl: "re_split s = hd (re_split s) # tl (re_split s)"
  using re_split_not_Nil [of s] by simp

lemma parse_lang_str_fails:
  "(\<exists>e. parse_lang_str py (Str s) = Inl e) \<longleftrightarrow> (\<exists>t \<in> set (tl (re_split s)). float_of py t = None)"
proof -
  have "(\<exists>e. parse_lang_str py (Str s) = Inl e) \<longleftrightarrow> (\<exists>e. map_float py (tl (re_split s)) = Inl e)"
    by (auto simp: parse_lang_str_unfold [OF re_split_hd_tl]
        split: sum.splits list.splits option.splits)
  then show ?thesis by (simp only: map_float_fails)
qed

lemma parse_lang_str_version:
  assumes "\<forall>t \<in> set (tl (re_split s)). float_of py t \<noteq> None"
    and "rsplit1 (hd (re_split s)) = [n, w]" and "float_of py w = Some v"
  shows "parse_lang_str py (Str s) =
           Inr (n, PFloat v # map (\<lambda>t. PFloat (the (float_of py t))) (tl (re_split s)))"
  using assms(2,3)
  by (simp add: parse_lang_str_unfold [OF re_split_hd_tl] map_float_all [OF assms(1)])

lemma parse_lang_str_whole:
  assumes "\<forall>t \<in> set (tl (re_split s)). float_of py t \<noteq> None"
    and "\<And>n w. rsplit1 (hd (re_split s)) \<noteq> [n, w]"
  shows "parse_lang_str py (Str s) =
           Inr (hd (re_split s), map (\<lambda>t. PFloat (the (float_of py t))) (tl (re_split s)))"
  using assms(2)
  by (simp add: parse_lang_str_unfold [OF re_split_hd_tl] map_float_all [OF assms(1)]
      split: list.splits)

text \<open>
  Where the parser does what the specification says. It splits the text on commas,
  each with the whitespace after it, into tokens. It raises a conversion error exactly
  when some token after the first does not convert to a number. When they all convert
  and the first token ends, after its last run of whitespace, in a word that converts,
  that number is put in front of the versions and the name is the first token without
  that word; when the first token cannot be split in this way, the name is the whole
  first token. \<open>Objective C 3.6, 3.3\<close> parses to \<open>Objective C\<close> with 3.6 and 3.3, and
  \<open>Cobol, stupid!\<close> fails.
\<close>

lemma parse_lang_str_tokens:
  "comma_split s (re_split s)
   \<and> ((\<exists>e. parse_lang_str py (Str s) = Inl e)
        \<longleftrightarrow> (\<exists>t \<in> set (tl (re_split s)). float_of py t = None))
   \<and> ((\<forall>t \<in> set (tl (re_split s)). float_of py t \<noteq> None)
        \<and> last_word_split (hd (re_split s)) n w \<and> float_of py w = Some v \<longrightarrow>
        parse_lang_str py (Str s) =
          Inr (n, PFloat v # map (\<lambda>t. PFloat (the (float_of py t))) (tl (re_split s))))
   \<and> ((\<forall>t \<in> set (tl (re_split s)). float_of py t \<noteq> None)
        \<and> (\<forall>n w. \<not> last_word_split (hd (re_split s)) n w) \<longrightarrow>
        parse_lang_str py (Str s) =
          Inr (hd (re_split s), map (\<lambda>t. PFloat (the (float_of py t))) (tl (re_split s))))"
  using re_split_comma_split [of s] parse_lang_str_fails [of py s]
    parse_lang_str_version [of s py n w v] parse_lang_str_whole [of s py]
  by (simp only: rsplit1_iff) blast

lemma parse_lang_str_tokens_examples:
  "re_split ''Objective C 3.6, 3.3'' = [''Objective C 3.6'', ''3.3'']
   \<and> last_word_split ''Objective C 3.6'' ''Objective C'' ''3.6''
   \<and> parse_lang_str decimal (Str ''Objective C 3.6, 3.3'')
        = Inr (''Objective C'', [PFloat (36/10), PFloat (33/10)])
   \<and> re_split ''Cobol, stupid!'' = [''Cobol'', ''stupid!'']
   \<and> parse_lang_str decimal (Str ''Cobol, stupid!'') = Inl (CouldNotConvert ''stupid!'')
   \<and> parse_lang_str decimal (Str ''Python'') = Inr (''Python'', [])"
proof -
  have r: "re_split ''Objective C 3.6, 3.3'' = [''Objective C 3.6'', ''3.3'']" by code_simp
  have l: "last_word_split ''Objective C 3.6'' ''Objective C'' ''3.6''"
    unfolding rsplit1_iff [symmetric] by code_simp
  have f: "float_of decimal ''3.6'' = Some (36/10)" "float_of decimal ''3.3'' = Some (33/10)"
    by code_simp+
  have c: "re_split ''Cobol, stupid!'' = [''Cobol'', ''stupid!'']" by code_simp
  have g: "float_of decimal ''stupid!'' = None" by code_simp
  have e: "parse_lang_str decimal (Str ''Cobol, stupid!'') = Inl (CouldNotConvert ''stupid!'')"
    by code_simp
  have p: "re_split ''Python'' = [''Python'']" by code_simp
  have q: "\<forall>n w. \<not> last_word_split ''Python'' n w"
    unfolding rsplit1_iff [symmetric] by (simp add: rsplit1_word list_ex_iff isspace_def)
  from parse_lang_str_tokens [of "''Objective C 3.6, 3.3''" decimal "''Objective C''" "''3.6''" "36/10"]
    r l f
  have 1: "parse_lang_str decimal (Str ''Objective C 3.6, 3.3'')
        = Inr (''Objective C'', [PFloat (36/10), PFloat (33/10)])"
    by simp
  from parse_lang_str_tokens [of "''Cobol, stupid!''" decimal] c g
  have 2: "\<exists>e. parse_lang_str decimal (Str ''Cobol, stupid!'') = Inl e" by simp
  from parse_lang_str_tokens [of "''Python''" decimal] p q
  have 3: "parse_lang_str decimal (Str ''Python'') = Inr (''Python'', [])" by simp
  from 1 2 3 r l c e show ?thesis by simp
qed

lemma parse_lang_str_word_kept_short:
  assumes "\<forall>t \<in> set (tl (re_split s)). float_of py t \<noteq> None"
    and "rsplit1 (hd (re_split s)) = [n, w]" and "float_of py w = None"
  shows "parse_lang_str py (Str s) =
           Inr (n, map (\<lambda>t. PFloat (the (float_of py t))) (tl (re_split s)))"
  using assms(2,3)
  by (simp add: parse_lang_str_unfold [OF re_split_hd_tl] map_float_all [OF assms(1)])

text \<open>
  C5. The code departs from the claim when the first token ends in a word that does not
  convert to a number: the claim keeps the whole first token as the name, the code
  returns the first token without its last word. The tuple assignment of the \<open>try\<close>
  block has rebound \<open>name\<close> by the time \<open>float(version)\<close> raises. So \<open>Objective C\<close>
  parses to the name \<open>Objective\<close>.
\<close>

theorem parse_lang_str_shortens_name:
  assumes "\<forall>t \<in> set (tl (re_split s)). float_of py t \<noteq> None"
    and "last_word_split (hd (re_split s)) n w" and "float_of py w = None"
  shows "parse_lang_str py (Str s) =
           Inr (n, map (\<lambda>t. PFloat (the (float_of py t))) (tl (re_split s)))
         \<and> n \<noteq> hd (re_split s)"
proof -
  from assms(2) have r: "rsplit1 (hd (re_split s)) = [n, w]" by (simp only: rsplit1_iff)
  from assms(2) obtain ws ws' where "hd (re_split s) = n @ ws @ w @ ws'" and "ws \<noteq> []"
    unfolding last_word_split_def by blast
  then have "n \<noteq> hd (re_split s)" by simp
  with parse_lang_str_word_kept_short [OF assms(1) r assms(3)] show ?thesis by simp
qed

theorem parse_lang_str_shortens_name_witness:
  "re_split ''Objective C'' = [''Objective C'']
   \<and> last_word_split ''Objective C'' ''Objective'' ''C''
   \<and> float_of decimal ''C'' = None
   \<and> parse_lang_str decimal (Str ''Objective C'') = Inr (''Objective'', [])
   \<and> ''Objective'' \<noteq> ''Objective C''"
proof -
  have r: "re_split ''Objective C'' = [''Objective C'']" by code_simp
  have l: "last_word_split ''Objective C'' ''Objective'' ''C''"
    unfolding rsplit1_iff [symmetric] by code_simp
  have f: "float_of decimal ''C'' = None" by code_simp
  from parse_lang_str_shortens_name [of "''Objective C''" decimal "''Objective''" "''C''"] r l f
  have "parse_lang_str decimal (Str ''Objective C'') = Inr (''Objective'', [])" by simp
  with r l f show ?thesis by simp
qed

subsection \<open>Name lookup\<close>

lemma parse_lang_str_plain_name:
  assumes "CHR '','' \<notin> set ident" and "\<not> list_ex isspace ident"
  shows "parse_lang_str py (Str ident) = Inr (ident, [])"
proof -
  have r: "re_split ident = [ident]" by (rule re_split_no_comma [OF assms(1)])
  have "rsplit1 ident = [] \<or> rsplit1 ident = [ident]"
    using rsplit1_word [OF _ assms(2)] rsplit1_Nil by (cases "ident = []") simp_all
  then show ?thesis
    by (auto simp: parse_lang_str_unfold [OF r])
qed

lemma LanguageMeta_contains_plain_name:
  assumes "CHR '','' \<notin> set ident" and "\<not> list_ex isspace ident" and "aliases cls \<noteq> None"
  shows "LanguageMeta_contains py cls (Str ident) =
           Inr (lower ident \<in> lower ` (set (alias_list cls) \<union> {qualname cls, cls_name cls}))"
  using assms(3)
  by (auto simp: LanguageMeta_contains_def alias_list_def
      parse_lang_str_plain_name [OF assms(1,2)])

lemma LanguageMeta_contains_no_aliases:
  assumes "CHR '','' \<notin> set ident" and "\<not> list_ex isspace ident" and "aliases cls = None"
  shows "LanguageMeta_contains py cls (Str ident) = Inl RecursionError"
  using assms(3)
  by (simp add: LanguageMeta_contains_def parse_lang_str_plain_name [OF assms(1,2)])

lemma LanguageMeta_getattr_plain_name:
  assumes "CHR '','' \<notin> set ident" and "\<not> list_ex isspace ident"
    and "\<forall>cls \<in> set all. aliases cls \<noteq> None"
  shows "LanguageMeta_getattr py all ident =
           (case find (\<lambda>cls. lower ident \<in> lower ` (set (alias_list cls) \<union> {qualname cls, cls_name cls})) all of
              None \<Rightarrow> Inl AttributeError
            | Some cls \<Rightarrow> Inr cls)"
  using assms(3)
  by (induction all) (simp_all add: LanguageMeta_contains_plain_name [OF assms(1,2)])

text \<open>
  Lookup in a registry that begins with a class declared without aliases raises
  \<open>RecursionError\<close>, whatever the identifier.
\<close>

lemma LanguageMeta_getattr_no_aliases:
  assumes "CHR '','' \<notin> set ident" and "\<not> list_ex isspace ident" and "aliases cls = None"
  shows "LanguageMeta_getattr py (cls # all) ident = Inl RecursionError"
  by (simp add: LanguageMeta_contains_no_aliases [OF assms])

text \<open>
  C6, as stated, fails: \<open>__getattr__\<close> tests \<open>item in lang\<close>, which parses the identifier
  and also compares with \<open>__name__\<close>. So \<open>py 3.6\<close> finds Python and \<open>cpp\<close> finds the
  class declared as \<open>CPP\<close>, whose canonical name is \<open>C++\<close> and whose alias is \<open>CXX\<close>,
  although no canonical name or alias equals either identifier.
\<close>

theorem lookup_counterexample:
  "LanguageMeta_getattr decimal [Python, CPP] ''py 3.6'' = Inr Python
   \<and> spec_lookup_by_name [Python, CPP] ''py 3.6'' = Inl AttributeError
   \<and> LanguageMeta_getattr decimal [Python, CPP] ''cpp'' = Inr CPP
   \<and> spec_lookup_by_name [Python, CPP] ''cpp'' = Inl AttributeError"
  by code_simp

text \<open>
  C6, amended. For every registry whose classes all declare aliases (possibly none) and
  every identifier without comma and whitespace, name lookup returns the first
  registered class, in registration order, whose \<open>__qualname__\<close>, \<open>__name__\<close> or one of
  whose aliases equals the identifier ignoring case, and fails with \<open>AttributeError\<close>
  when there is none. Two such identifiers that are equal ignoring case, like \<open>PYTHON\<close>
  and \<open>python\<close>, give the same result.
\<close>

theorem lookup_first_match:
  assumes "CHR '','' \<notin> set ident" and "\<not> list_ex isspace ident"
    and "\<forall>cls \<in> set all. aliases cls \<noteq> None"
  shows "LanguageMeta_getattr py all ident =
           (case find (\<lambda>cls. lower ident \<in> lower ` (set (alias_list cls) \<union> {qualname cls, cls_name cls})) all of
              None \<Rightarrow> Inl AttributeError
            | Some cls \<Rightarrow> Inr cls)
         \<and> (CHR '','' \<notin> set ident' \<and> \<not> list_ex isspace ident' \<and> lower ident' = lower ident \<longrightarrow>
              LanguageMeta_getattr py all ident' = LanguageMeta_getattr py all ident)"
  using LanguageMeta_getattr_plain_name [OF assms, of py]
    LanguageMeta_getattr_plain_name [of ident' all py] assms(3)
  by simp

theorem lookup_first_match_witness:
  "CHR '','' \<notin> set ''PYTHON'' \<and> \<not> list_ex isspace ''PYTHON''
   \<and> aliases Python \<noteq> None \<and> aliases CPP \<noteq> None
   \<and> LanguageMeta_getattr decimal [Python, CPP] ''PYTHON'' = Inr Python
   \<and> LanguageMeta_getattr decimal [Python, CPP] ''python'' = Inr Python
   \<and> LanguageMeta_getattr decimal [Python, CPP] ''cxx'' = Inr CPP
   \<and> LanguageMeta_getattr decimal [Python, CPP] ''Cobol'' = Inl AttributeError"
proof -
  have a: "CHR '','' \<notin> set ''PYTHON''" "\<not> list_ex isspace ''PYTHON''" by code_simp+
  have b: "CHR '','' \<notin> set ''python''" "\<not> list_ex isspace ''python''" "lower ''python'' = lower ''PYTHON''"
    by code_simp+
  have c: "aliases Python \<noteq> None" "aliases CPP \<noteq> None" by code_simp+
  then have d: "\<forall>cls \<in> set [Python, CPP]. aliases cls \<noteq> None" by simp
  let ?m = "\<lambda>ident cls. lower ident \<in> lower ` (set (alias_list cls) \<union> {qualname cls, cls_name cls})"
  have 1: "find (?m ''PYTHON'') [Python, CPP] = Some Python" by code_simp
  have 3: "LanguageMeta_getattr decimal [Python, CPP] ''cxx'' = Inr CPP" by code_simp
  have 4: "LanguageMeta_getattr decimal [Python, CPP] ''Cobol'' = Inl AttributeError" by code_simp
  note t = lookup_first_match [OF a d, of decimal "''python''"]
  from t 1 have 5: "LanguageMeta_getattr decimal [Python, CPP] ''PYTHON'' = Inr Python" by simp
  from t b have "LanguageMeta_getattr decimal [Python, CPP] ''python''
      = LanguageMeta_getattr decimal [Python, CPP] ''PYTHON''" by blast
  with 5 3 4 a c show ?thesis by simp
qed

subsection \<open>Membership\<close>

text \<open>Membership in terms of what the parser makes of the candidate.\<close>

lemma LanguageMeta_contains_parsed:
  assumes "parse_lang_str py item = Inr (name, vs)" and "aliases cls = Some als"
  shows "LanguageMeta_contains py cls item =
           Inr (lower name \<in> lower ` (set als \<union> {qualname cls, cls_name cls})
                \<and> (vs = [] \<or> num_val ` set vs \<subseteq> num_val ` set (cls_versions cls)))"
proof -
  have "list_all (\<lambda>version. py_in version (cls_versions cls)) vs
      \<longleftrightarrow> num_val ` set vs \<subseteq> num_val ` set (cls_versions cls)"
  proof
    assume a: "list_all (\<lambda>version. py_in version (cls_versions cls)) vs"
    show "num_val ` set vs \<subseteq> num_val ` set (cls_versions cls)"
    proof
      fix x assume "x \<in> num_val ` set vs"
      then obtain v where v: "v \<in> set vs" "x = num_val v" by blast
      with a obtain w where w: "w \<in> set (cls_versions cls)" "num_val w = num_val v"
        by (auto simp: list_all_iff py_in_def list_ex_iff)
      from w(1) have "num_val w \<in> num_val ` set (cls_versions cls)" by (rule imageI)
      then show "x \<in> num_val ` set (cls_versions cls)" by (simp only: w(2) v(2))
    qed
  next
    assume b: "num_val ` set vs \<subseteq> num_val ` set (cls_versions cls)"
    show "list_all (\<lambda>version. py_in version (cls_versions cls)) vs"
      unfolding list_all_iff py_in_def list_ex_iff
    proof
      fix v assume "v \<in> set vs"
      with b have "num_val v \<in> num_val ` set (cls_versions cls)" by blast
      then obtain w where "w \<in> set (cls_versions cls)" "num_val v = num_val w" by (rule imageE)
      then show "\<exists>w \<in> set (cls_versions cls). num_val w = num_val v" by (intro bexI [of _ w]) simp_all
    qed
  qed
  then show ?thesis
    by (simp add: LanguageMeta_contains_def assms)
qed

text \<open>
  C7. The code departs from the claim on the default instance of a class declared
  without versions: its name is that of the class and it specifies no version, yet it
  is not a member of its own class. Its text is \<open>Text \<close> with a space at the end, which
  the parser keeps in the name. On the examples of the claim the code agrees with it:
  \<open>Python 2.6\<close> is not in Python, \<open>Python\<close> is.
\<close>

theorem contains_own_versionless_instance:
  "Language_init Text [] = Inr \<lparr>inst_type = Text, versions = []\<rparr>
   \<and> Language_str decimal \<lparr>inst_type = Text, versions = []\<rparr> = ''Text ''
   \<and> LanguageMeta_contains decimal Text (Inst \<lparr>inst_type = Text, versions = []\<rparr>) = Inr False
   \<and> LanguageMeta_contains decimal Python (Str ''Python 2.6'') = Inr False
   \<and> LanguageMeta_contains decimal Python (Str ''Python'') = Inr True"
  by code_simp


subsection \<open>From an instance to its text and back\<close>

lemma join_prefix: "join sep ((p @ t) # ts) = p @ join sep (t # ts)"
  by (cases ts) simp_all

lemma join_hd: "t \<noteq> [] \<Longrightarrow> join sep (t # ts) \<noteq> [] \<and> hd (join sep (t # ts)) = hd t"
  by (cases ts) simp_all

lemma re_split_join:
  assumes "ts \<noteq> []" and "\<forall>t \<in> set ts. CHR '','' \<notin> set t"
    and "\<forall>t \<in> set (tl ts). t \<noteq> [] \<and> \<not> isspace (hd t)"
  shows "re_split (join '', '' ts) = ts"
  using assms
proof (induction "'', ''" ts rule: join.induct)
  case 1
  then show ?case by simp
next
  case (2 t)
  then show ?case by (simp add: re_split_no_comma)
next
  case (3 t u ts)
  from "3.prems" have t: "CHR '','' \<notin> set t" and u: "u \<noteq> []" "\<not> isspace (hd u)" by simp_all
  from "3.prems" have ih: "re_split (join '', '' (u # ts)) = u # ts"
    by (intro "3.hyps") simp_all
  have sp: "isspace CHR '' ''" by (simp add: isspace_def)
  have "join '', '' (t # u # ts) = t @ CHR '','' # (CHR '' '' # join '', '' (u # ts))"
    by simp
  then have "re_split (join '', '' (t # u # ts))
      = t # re_split (dropWhile isspace (CHR '' '' # join '', '' (u # ts)))"
    by (simp only: re_split_comma [OF t])
  also have "dropWhile isspace (CHR '' '' # join '', '' (u # ts)) = join '', '' (u # ts)"
    using join_hd [OF u(1), of "'', ''" ts] u(2) sp
    by (cases "join '', '' (u # ts)") simp_all
  finally show ?case by (simp only: ih)
qed

lemma map_float_str:
  assumes "\<forall>v \<in> set vs. float_of py (str_of py v) = Some (num_val v)"
  shows "map_float py (map (str_of py) vs) = Inr (map (\<lambda>v. PFloat (num_val v)) vs)"
  using assms by (induction vs) simp_all

lemma parse_lang_str_of_str:
  assumes q: "q \<noteq> []" "CHR '','' \<notin> set q" "\<not> list_ex isspace q"
    and vs: "vs \<noteq> []"
    and st: "\<forall>v \<in> set vs. float_of py (str_of py v) = Some (num_val v) \<and> str_of py v \<noteq> []
               \<and> CHR '','' \<notin> set (str_of py v) \<and> \<not> list_ex isspace (str_of py v)"
  shows "parse_lang_str py (Str (q @ '' '' @ join '', '' (map (str_of py) vs)))
           = Inr (q, map (\<lambda>v. PFloat (num_val v)) vs)"
proof -
  from vs obtain v rest where vr: "vs = v # rest" by (cases vs) auto
  let ?first = "q @ '' '' @ str_of py v"
  let ?toks = "?first # map (str_of py) rest"
  have joined: "q @ '' '' @ join '', '' (map (str_of py) vs) = join '', '' ?toks"
    using join_prefix [of "'', ''" "q @ '' ''" "str_of py v" "map (str_of py) rest"]
    by (simp add: vr)
  have nc: "\<forall>t \<in> set ?toks. CHR '','' \<notin> set t"
    using q(2) st by (auto simp: vr)
  have ns: "\<forall>t \<in> set (tl ?toks). t \<noteq> [] \<and> \<not> isspace (hd t)"
    using st by (auto simp: vr list_ex_iff)
  have split: "re_split (join '', '' ?toks) = ?toks"
    by (rule re_split_join [OF _ nc ns]) simp
  have "last_word_split ?first q (str_of py v)"
    unfolding last_word_split_def
  proof (intro exI conjI)
    show "?first = q @ '' '' @ str_of py v @ []" by simp
    show "q \<noteq> []" by (rule q(1))
    show "\<not> isspace (last q)" using q(1,3) by (auto simp: list_ex_iff)
    show "'' '' \<noteq> []" by simp
    show "list_all isspace '' ''" by (simp add: isspace_def)
    show "str_of py v \<noteq> []" using st by (simp add: vr)
    show "\<not> list_ex isspace (str_of py v)" using st by (simp add: vr)
    show "list_all isspace []" by simp
  qed
  then have "rsplit1 ?first = [q, str_of py v]" by (rule rsplit1_both)
  then have rs: "rsplit1 (q @ CHR '' '' # str_of py v) = [q, str_of py v]" by simp
  have fv: "float_of py (str_of py v) = Some (num_val v)" using st by (simp add: vr)
  have mf: "map_float py (map (str_of py) rest) = Inr (map (\<lambda>v. PFloat (num_val v)) rest)"
    by (rule map_float_str) (use st in \<open>simp add: vr\<close>)
  show ?thesis
    by (simp only: joined parse_lang_str_unfold [OF split]) (simp add: mf rs fv vr)
qed

lemma Language_init_floats:
  assumes "wf_language inst" and "versions inst \<noteq> []"
  shows "Language_init (inst_type inst) (map (\<lambda>v. PFloat (num_val v)) (versions inst))
           = Inr \<lparr>inst_type = inst_type inst, versions = map (\<lambda>v. PFloat (num_val v)) (versions inst)\<rparr>"
proof (rule Language_init_sorted)
  show "list_all (\<lambda>version. py_in version (cls_versions (inst_type inst)))
          (map (\<lambda>v. PFloat (num_val v)) (versions inst))"
    using assms(1) by (simp add: wf_language_def list_all_iff py_in_def)
  show "map (\<lambda>v. PFloat (num_val v)) (versions inst) \<noteq> []" using assms(2) by simp
  have "map num_val (map (\<lambda>v. PFloat (num_val v)) (versions inst)) = map num_val (versions inst)"
    by simp
  then show "sorted (map num_val (map (\<lambda>v. PFloat (num_val v)) (versions inst)))"
    using assms(1) by (simp only: wf_language_def)
qed

text \<open>
  C8, as stated, fails: lookup returns the first class that answers to a name. The
  default instance of the second declaration of Python prints as \<open>Python 3.7\<close>, which
  resolves to the first declaration and fails there, 3.7 not being one of its versions.
\<close>

theorem resolve_str_counterexample:
  "Language_init Python_again [] = Inr \<lparr>inst_type = Python_again, versions = [PFloat (37/10)]\<rparr>
   \<and> Language_str decimal \<lparr>inst_type = Python_again, versions = [PFloat (37/10)]\<rparr> = ''Python 3.7''
   \<and> LanguageMeta_getitem decimal [Python, CPP, Text, Python_again] (Str ''Python 3.7'')
       = Inl AssertionError"
  by code_simp


text \<open>
  C8, amended. Take an instance that the module has built, with at least one version,
  of a class whose canonical name is not empty, holds no comma and no whitespace, and
  is resolved by name lookup to this very class; let \<open>float(str(v))\<close> give back the
  value of each of its versions \<open>v\<close>, \<open>str(v)\<close> being a non-empty text without comma
  and whitespace. Then resolving the text of the instance succeeds and yields an
  instance of the same class whose versions are the floats of the same values in the
  same order.
\<close>

theorem resolve_str_round_trip:
  assumes "wf_language inst" and "versions inst \<noteq> []"
    and "qualname (inst_type inst) \<noteq> []" and "CHR '','' \<notin> set (qualname (inst_type inst))"
    and "\<not> list_ex isspace (qualname (inst_type inst))"
    and "LanguageMeta_getattr py all (qualname (inst_type inst)) = Inr (inst_type inst)"
    and "\<forall>v \<in> set (versions inst).
           float_of py (str_of py v) = Some (num_val v) \<and> str_of py v \<noteq> []
           \<and> CHR '','' \<notin> set (str_of py v) \<and> \<not> list_ex isspace (str_of py v)"
  shows "LanguageMeta_getitem py all (Str (Language_str py inst))
           = Inr \<lparr>inst_type = inst_type inst,
                  versions = map (\<lambda>v. PFloat (num_val v)) (versions inst)\<rparr>"
proof -
  have "parse_lang_str py (Str (Language_str py inst))
      = Inr (qualname (inst_type inst), map (\<lambda>v. PFloat (num_val v)) (versions inst))"
    unfolding Language_str_def
    by (rule parse_lang_str_of_str [OF assms(3,4,5,2,7)])
  then show ?thesis
    by (simp add: LanguageMeta_getitem_def assms(6) Language_init_floats [OF assms(1,2)])
qed

theorem resolve_str_round_trip_witness:
  "wf_language (PythonOf [PFloat (33/10), PFloat (36/10)])
   \<and> Language_str decimal (PythonOf [PFloat (33/10), PFloat (36/10)]) = ''Python 3.3, 3.6''
   \<and> LanguageMeta_getattr decimal [Python, CPP] ''Python'' = Inr Python
   \<and> LanguageMeta_getitem decimal [Python, CPP] (Str ''Python 3.3, 3.6'')
       = Inr (PythonOf [PFloat (33/10), PFloat (36/10)])
   \<and> Language_str decimal \<lparr>inst_type = CPP, versions = [PInt 11]\<rparr> = ''C++ 11''
   \<and> LanguageMeta_getitem decimal [Python, CPP] (Str ''C++ 11'')
       = Inr \<lparr>inst_type = CPP, versions = [PFloat 11]\<rparr>"
proof -
  let ?i = "PythonOf [PFloat (33/10), PFloat (36/10)]"
  have t: "inst_type ?i = Python" and v: "versions ?i = [PFloat (33/10), PFloat (36/10)]"
    by (simp_all add: PythonOf_def)
  have 1: "wf_language ?i" by code_simp
  have 2: "versions ?i \<noteq> []" by (simp add: PythonOf_def)
  have 3: "qualname (inst_type ?i) \<noteq> []" by code_simp
  have 4: "CHR '','' \<notin> set (qualname (inst_type ?i))" by code_simp
  have 5: "\<not> list_ex isspace (qualname (inst_type ?i))" by code_simp
  have 6: "LanguageMeta_getattr decimal [Python, CPP] (qualname (inst_type ?i)) = Inr (inst_type ?i)"
    by code_simp
  have 7: "\<forall>v \<in> set (versions ?i).
           float_of decimal (str_of decimal v) = Some (num_val v) \<and> str_of decimal v \<noteq> []
           \<and> CHR '','' \<notin> set (str_of decimal v) \<and> \<not> list_ex isspace (str_of decimal v)"
    by code_simp
  have s: "Language_str decimal ?i = ''Python 3.3, 3.6''" by code_simp
  have g: "LanguageMeta_getattr decimal [Python, CPP] ''Python'' = Inr Python" by code_simp
  have m: "\<lparr>inst_type = inst_type ?i, versions = map (\<lambda>v. PFloat (num_val v)) (versions ?i)\<rparr> = ?i"
    by code_simp
  from resolve_str_round_trip [OF 1 2 3 4 5 6 7]
  have "LanguageMeta_getitem decimal [Python, CPP] (Str (Language_str decimal ?i)) = Inr ?i"
    by (simp only: m)
  moreover have "Language_str decimal \<lparr>inst_type = CPP, versions = [PInt 11]\<rparr> = ''C++ 11''"
    by code_simp
  moreover have "LanguageMeta_getitem decimal [Python, CPP] (Str ''C++ 11'')
       = Inr \<lparr>inst_type = CPP, versions = [PFloat 11]\<rparr>"
    by code_simp
  ultimately show ?thesis using 1 s g by simp
qed

end
